theory Spec2Isabelle
  imports Main
begin

section \<open>JavaScript values and exceptions\<close>

text \<open>
  The values the tracker handles: the options object handed to \<open>create\<close>, the ids and
  attributes that the caller hands to the instance, and the bodies the server answers
  with. A string is the list of its code units. An object is the list of its own
  properties, each key listed once. \<open>JBigInt\<close> is a BigInt, a value that the caller can
  pass and that \<open>JSON.stringify\<close> refuses; the other constructors are JSON data and
  \<open>undefined\<close>.
\<close>

datatype jsval =
    JUndefined
  | JNull
  | JBool bool
  | JNum int
  | JBigInt int
  | JStr string
  | JArr "jsval list"
  | JObj "(string \<times> jsval) list"

text \<open>
  What a piece of the program can throw: the engine's \<open>TypeError\<close> (a property read on
  \<open>undefined\<close> or \<open>null\<close>, a failed fetch), the \<open>SyntaxError\<close> of \<open>response.json()\<close>,
  \<open>new Error(message)\<close> with the value given as message, and whatever value the
  caller's callback throws.
\<close>

datatype js_error =
    TypeError
  | SyntaxError
  | Error jsval
  | Thrown jsval

text \<open>
  \<open>v.name\<close>. Reading a property of \<open>undefined\<close> or \<open>null\<close> throws; an object answers with
  its own property or \<open>undefined\<close>; every other value answers \<open>undefined\<close> (the names the
  program reads, \<open>detailed\<close>, \<open>ignoreLocalhost\<close>, \<open>ignoreOwnVisits\<close>, \<open>errors\<close>, \<open>message\<close>,
  \<open>data\<close>, \<open>createRecord\<close>, \<open>createAction\<close>, \<open>payload\<close> and \<open>id\<close>, are no members of a
  prototype).
\<close>

fun get_prop :: "jsval \<Rightarrow> string \<Rightarrow> js_error + jsval" where
  "get_prop JUndefined k = Inl TypeError"
| "get_prop JNull k = Inl TypeError"
| "get_prop (JObj ps) k = Inr (case map_of ps k of None \<Rightarrow> JUndefined | Some v \<Rightarrow> v)"
| "get_prop (JBool b) k = Inr JUndefined"
| "get_prop (JNum n) k = Inr JUndefined"
| "get_prop (JBigInt n) k = Inr JUndefined"
| "get_prop (JStr s) k = Inr JUndefined"
| "get_prop (JArr xs) k = Inr JUndefined"

text \<open>\<open>v[0]\<close>: the first element of an array, the first code unit of a string, the
  property \<open>"0"\<close> of an object.\<close>

fun get_index0 :: "jsval \<Rightarrow> js_error + jsval" where
  "get_index0 JUndefined = Inl TypeError"
| "get_index0 JNull = Inl TypeError"
| "get_index0 (JArr xs) = Inr (case xs of [] \<Rightarrow> JUndefined | x # _ \<Rightarrow> x)"
| "get_index0 (JStr s) = Inr (case s of [] \<Rightarrow> JUndefined | c # _ \<Rightarrow> JStr [c])"
| "get_index0 (JObj ps) = Inr (case map_of ps ''0'' of None \<Rightarrow> JUndefined | Some v \<Rightarrow> v)"
| "get_index0 (JBool b) = Inr JUndefined"
| "get_index0 (JNum n) = Inr JUndefined"
| "get_index0 (JBigInt n) = Inr JUndefined"

text \<open>\<open>v == null\<close>, the loose comparison: true of \<open>null\<close> and of \<open>undefined\<close> only.\<close>

definition loosely_null :: "jsval \<Rightarrow> bool" where
  "loosely_null v = (v = JNull \<or> v = JUndefined)"

text \<open>
  Whether \<open>JSON.stringify\<close> accepts a value: it throws a \<open>TypeError\<close> when it meets a
  BigInt, in the value itself, in an element of an array or in a property of an object.
  (It throws as well on an object that contains itself and on one whose \<open>toJSON\<close>
  throws; such objects are no finite data and are not values of this type.)
\<close>

fun serialisable :: "jsval \<Rightarrow> bool"
  and serialisable_all :: "jsval list \<Rightarrow> bool"
  and serialisable_props :: "(string \<times> jsval) list \<Rightarrow> bool" where
  "serialisable JUndefined = True"
| "serialisable JNull = True"
| "serialisable (JBool b) = True"
| "serialisable (JNum n) = True"
| "serialisable (JBigInt n) = False"
| "serialisable (JStr s) = True"
| "serialisable (JArr xs) = serialisable_all xs"
| "serialisable (JObj ps) = serialisable_props ps"
| "serialisable_all [] = True"
| "serialisable_all (x # xs) = (serialisable x \<and> serialisable_all xs)"
| "serialisable_props [] = True"
| "serialisable_props (p # ps) = (serialisable (snd p) \<and> serialisable_props ps)"

text \<open>Sequencing of steps that may throw.\<close>

fun and_then :: "js_error + 'a \<Rightarrow> ('a \<Rightarrow> js_error + 'b) \<Rightarrow> js_error + 'b" where
  "and_then (Inl e) f = Inl e"
| "and_then (Inr v) f = f v"

section \<open>Options validator\<close>

record tracker_options =
  detailed :: bool
  ignoreLocalhost :: bool
  ignoreOwnVisits :: bool

text \<open>
  \<open>validate(options = {})\<close>: the default \<open>{}\<close> replaces \<open>undefined\<close> only. Then
  \<open>options.detailed === true\<close>, \<open>options.ignoreLocalhost !== false\<close> and
  \<open>options.ignoreOwnVisits !== false\<close> are read in this order.
\<close>

definition validate :: "jsval \<Rightarrow> js_error + tracker_options" where
  "validate arg =
     (let options = (if arg = JUndefined then JObj [] else arg) in
      and_then (get_prop options ''detailed'') (\<lambda>d.
      and_then (get_prop options ''ignoreLocalhost'') (\<lambda>l.
      and_then (get_prop options ''ignoreOwnVisits'') (\<lambda>v.
        Inr \<lparr> detailed = (d = JBool True),
              ignoreLocalhost = (l \<noteq> JBool False),
              ignoreOwnVisits = (v \<noteq> JBool False) \<rparr>))))"

section \<open>Environment classifier\<close>

definition isLocalhost :: "string \<Rightarrow> bool" where
  "isLocalhost hostname =
     (hostname = '''' \<or> hostname = ''localhost'' \<or> hostname = ''127.0.0.1'' \<or> hostname = ''::1'')"

text \<open>\<open>s.startsWith(p)\<close> and \<open>s.includes(p)\<close>, on code units.\<close>

definition starts_with :: "string \<Rightarrow> string \<Rightarrow> bool" where
  "starts_with p s = (take (length p) s = p)"

fun js_includes :: "string \<Rightarrow> string \<Rightarrow> bool" where
  "js_includes p [] = (p = [])"
| "js_includes p (c # cs) = (starts_with p (c # cs) \<or> js_includes p cs)"

text \<open>
  The flag \<open>i\<close> of the regular expression \<open>/bot|crawler|spider|crawling/i\<close> compares
  letters without their case. The pattern has the letters a to z only, and no code unit
  outside A to Z is equal to one of them without its case, so the subject is compared
  with its letters A to Z lowered.
\<close>

definition lower :: "char \<Rightarrow> char" where
  "lower c =
     (if (65::nat) \<le> of_char c \<and> of_char c \<le> (90::nat)
      then char_of (of_char c + (32::nat)) else c)"

definition isBot :: "string \<Rightarrow> bool" where
  "isBot userAgent =
     (let u = map lower userAgent in
      js_includes ''bot'' u \<or> js_includes ''crawler'' u \<or> js_includes ''spider'' u \<or> js_includes ''crawling'' u)"

definition fake_id :: string where
  "fake_id = ''88888888-8888-8888-8888-888888888888''"

definition isFakeId :: "jsval \<Rightarrow> bool" where
  "isFakeId ident = (ident = JStr fake_id)"

text \<open>\<open>isInBackground\<close> reads \<open>document.visibilityState\<close>, here its argument.\<close>

definition isInBackground :: "string \<Rightarrow> bool" where
  "isInBackground visibilityState = (visibilityState = ''hidden'')"

section \<open>Attribute collector\<close>

text \<open>
  \<open>str.split(sep)\<close> for a string separator: the pieces between the occurrences of
  \<open>sep\<close>, found from the left and not overlapping. An empty separator cuts the string
  into its code units.
\<close>

fun split_from :: "string \<Rightarrow> string \<Rightarrow> string \<Rightarrow> string list" where
  "split_from sep piece [] = [piece]"
| "split_from sep piece (c # cs) =
     (if starts_with sep (c # cs)
      then piece # split_from sep [] (drop (length sep - 1) cs)
      else split_from sep (piece @ [c]) cs)"

definition js_split :: "string \<Rightarrow> string \<Rightarrow> string list" where
  "js_split sep s = (if sep = [] then map (\<lambda>c. [c]) s else split_from sep [] s)"

text \<open>
  \<open>source()\<close> reads \<open>location.search\<close>, here its argument:
  \<open>(location.search.split(`source=`)[1] || '').split('&')[0]\<close>, and \<open>undefined\<close>
  (\<open>None\<close>) when that is the empty string.
\<close>

definition source :: "string \<Rightarrow> string option" where
  "source search =
     (let second = (case js_split ''source='' search of _ # p # _ \<Rightarrow> p | _ \<Rightarrow> '''')
      in case js_split ''&'' second of
           [] \<Rightarrow> None
         | s # _ \<Rightarrow> (if s = '''' then None else Some s))"

text \<open>
  The ambient state of the page that the program reads: \<open>location\<close>, \<open>document.referrer\<close>,
  \<open>navigator\<close>, \<open>screen\<close>, \<open>window\<close>, and what the \<open>platform\<close> package reports.
  \<open>language\<close> is the value of \<open>navigator.language || navigator.userLanguage\<close>.
\<close>

record environment =
  search :: string
  href :: string
  referrer :: string
  hostname :: string
  userAgent :: string
  language :: string
  screenWidth :: jsval
  screenHeight :: jsval
  screenColorDepth :: jsval
  platformProduct :: jsval
  platformManufacturer :: jsval
  platformOsFamily :: jsval
  platformOsVersion :: jsval
  platformName :: jsval
  platformVersion :: jsval
  outerWidth :: jsval
  outerHeight :: jsval

definition defaultData :: "environment \<Rightarrow> (string \<times> jsval) list" where
  "defaultData env =
     [(''siteLocation'', JStr (href env)),
      (''siteReferrer'', JStr (referrer env)),
      (''source'', case source (search env) of None \<Rightarrow> JUndefined | Some s \<Rightarrow> JStr s)]"

definition detailedData :: "environment \<Rightarrow> (string \<times> jsval) list" where
  "detailedData env =
     [(''siteLanguage'', JStr (take 2 (language env))),
      (''screenWidth'', screenWidth env),
      (''screenHeight'', screenHeight env),
      (''screenColorDepth'', screenColorDepth env),
      (''deviceName'', platformProduct env),
      (''deviceManufacturer'', platformManufacturer env),
      (''osName'', platformOsFamily env),
      (''osVersion'', platformOsVersion env),
      (''browserName'', platformName env),
      (''browserVersion'', platformVersion env),
      (''browserWidth'', outerWidth env),
      (''browserHeight'', outerHeight env)]"

definition attributes :: "environment \<Rightarrow> bool \<Rightarrow> jsval" where
  "attributes env is_detailed =
     JObj (defaultData env @ (if is_detailed then detailedData env else []))"

section \<open>Endpoint\<close>

text \<open>\<open>server.substr(-1)\<close>: the last code unit, the empty string for an empty one.\<close>

definition substr_last :: "string \<Rightarrow> string" where
  "substr_last s = drop (length s - 1) s"

definition endpoint :: "string \<Rightarrow> string" where
  "endpoint server =
     (let hasTrailingSlash = (substr_last server = ''/'')
      in server @ (if hasTrailingSlash then '''' else ''/'') @ ''api'')"

section \<open>Request builder\<close>

text \<open>
  A request body is \<open>{query, variables}\<close>. The query is one of four fixed GraphQL
  mutation texts, named here by its mutation; the variables are listed in the order
  of the source.
\<close>

datatype operation = CreateRecord | UpdateRecord | CreateAction | UpdateAction

record gql_body =
  query :: operation
  variables :: "(string \<times> jsval) list"

definition createRecordBody :: "jsval \<Rightarrow> jsval \<Rightarrow> gql_body" where
  "createRecordBody domainId input =
     \<lparr> query = CreateRecord, variables = [(''domainId'', domainId), (''input'', input)] \<rparr>"

definition updateRecordBody :: "jsval \<Rightarrow> gql_body" where
  "updateRecordBody recordId =
     \<lparr> query = UpdateRecord, variables = [(''recordId'', recordId)] \<rparr>"

definition createActionBody :: "jsval \<Rightarrow> jsval \<Rightarrow> gql_body" where
  "createActionBody eventId input =
     \<lparr> query = CreateAction, variables = [(''eventId'', eventId), (''input'', input)] \<rparr>"

definition updateActionBody :: "jsval \<Rightarrow> jsval \<Rightarrow> gql_body" where
  "updateActionBody actionId input =
     \<lparr> query = UpdateAction, variables = [(''actionId'', actionId), (''input'', input)] \<rparr>"

section \<open>Transport\<close>

datatype credentials = Omit | Include

text \<open>
  \<open>JSON.stringify(body)\<close>: a \<open>TypeError\<close> when a variable of the body holds a value that
  does not serialise, and otherwise the text of the body, which is written here as the
  body itself.
\<close>

definition stringify :: "gql_body \<Rightarrow> js_error + gql_body" where
  "stringify b = (if serialisable_props (variables b) then Inr b else Inl TypeError)"

text \<open>
  The arguments of the one \<open>fetch\<close> call of \<open>send\<close>. \<open>req_body\<close> is the text that
  \<open>JSON.stringify\<close> returned.
\<close>

record request =
  req_url :: string
  req_method :: string
  req_headers :: "(string \<times> string) list"
  req_credentials :: credentials
  req_body :: gql_body

definition send_request :: "string \<Rightarrow> gql_body \<Rightarrow> tracker_options \<Rightarrow> request" where
  "send_request u text opts =
     \<lparr> req_url = u,
       req_method = ''POST'',
       req_headers = [(''Content-Type'', ''application/json;charset=UTF-8'')],
       req_credentials = (if ignoreOwnVisits opts then Omit else Include),
       req_body = text \<rparr>"

text \<open>
  The part of \<open>send\<close> that runs during the call: the arguments of \<open>fetch\<close> are evaluated,
  \<open>JSON.stringify(body)\<close> among them, and \<open>fetch\<close> is called with them. This happens
  before the promise chain exists: when \<open>JSON.stringify\<close> throws, no request goes out
  and the exception leaves \<open>send\<close>.
\<close>

definition send_call :: "string \<Rightarrow> gql_body \<Rightarrow> tracker_options \<Rightarrow> js_error + request" where
  "send_call u b opts = and_then (stringify b) (\<lambda>text. Inr (send_request u text opts))"

text \<open>
  What the network does with a request: the promise of \<open>fetch\<close> rejects, or it fulfils
  with a response whose \<open>ok\<close> flag is given and whose \<open>json()\<close> promise rejects or
  fulfils with the parsed body.
\<close>

datatype fetch_outcome =
    Rejected js_error
  | Responded bool "js_error + jsval"

text \<open>
  What the page can observe of the program, in the order it happens. \<open>Uncaught e\<close> is
  an exception that leaves a timer callback, which the host reports.
\<close>

datatype effect =
    Fetch request
  | Warn string
  | LogError js_error
  | SetInterval nat
  | ClearInterval
  | Invoke jsval
  | Uncaught js_error

text \<open>
  The callback \<open>next\<close> of \<open>send\<close>, when it is a function: given the parsed body and the
  state of its closure, it returns or throws, leaves a new state and has effects.
\<close>

type_synonym 's continuation = "jsval \<Rightarrow> 's \<Rightarrow> (js_error + unit) \<times> 's \<times> effect list"

text \<open>The first \<open>then\<close> of \<open>send\<close>.\<close>

definition on_response :: "bool \<Rightarrow> js_error + jsval \<Rightarrow> js_error + jsval" where
  "on_response ok json =
     (if \<not> ok then Inl (Error (JStr ''Server returned with an unhandled status''))
      else json)"

text \<open>The second \<open>then\<close> of \<open>send\<close>; \<open>None\<close> is a \<open>next\<close> that is no function.\<close>

definition on_json ::
  "'s continuation option \<Rightarrow> jsval \<Rightarrow> 's \<Rightarrow> (js_error + unit) \<times> 's \<times> effect list" where
  "on_json next json s =
     (case get_prop json ''errors'' of
        Inl e \<Rightarrow> (Inl e, s, [])
      | Inr errors \<Rightarrow>
          if \<not> loosely_null errors then
            (case and_then (get_index0 errors) (\<lambda>first. get_prop first ''message'') of
               Inl e \<Rightarrow> (Inl e, s, [])
             | Inr message \<Rightarrow> (Inl (Error message), s, []))
          else
            (case next of
               None \<Rightarrow> (Inr (), s, [])
             | Some f \<Rightarrow> f json s))"

text \<open>
  The promise chain of \<open>send\<close>, run when the network has answered: the two \<open>then\<close>
  handlers, skipped at a rejection, and the final \<open>catch\<close>, which logs the error and
  fulfils. The first component is how the last promise of the chain settles.
\<close>

definition settle ::
  "'s continuation option \<Rightarrow> fetch_outcome \<Rightarrow> 's \<Rightarrow> (js_error + unit) \<times> 's \<times> effect list" where
  "settle next outcome s =
     (let fetched = (case outcome of
                       Rejected e \<Rightarrow> Inl e
                     | Responded ok json \<Rightarrow> on_response ok json);
          (r, s', out) = (case fetched of
                            Inl e \<Rightarrow> (Inl e, s, [])
                          | Inr json \<Rightarrow> on_json next json s)
      in case r of
           Inl e \<Rightarrow> (Inr (), s', out @ [LogError e])
         | Inr u \<Rightarrow> (Inr (), s', out))"

text \<open>
  One call of \<open>send\<close> together with the answer of the network to it. The first
  component is \<open>Inl e\<close> when \<open>send\<close> threw \<open>e\<close> to its caller, and then there is no
  request and no promise chain; it is \<open>Inr r\<close> when \<open>send\<close> returned, the request went
  out and the last promise of the chain settled as \<open>r\<close>.
\<close>

definition send ::
  "string \<Rightarrow> gql_body \<Rightarrow> tracker_options \<Rightarrow> 's continuation option \<Rightarrow> fetch_outcome \<Rightarrow> 's
     \<Rightarrow> (js_error + (js_error + unit)) \<times> 's \<times> effect list" where
  "send u b opts next outcome s =
     (case send_call u b opts of
        Inl e \<Rightarrow> (Inl e, s, [])
      | Inr q \<Rightarrow>
          (let (r, s', out) = settle next outcome s
           in (Inr r, s', Fetch q # out)))"

section \<open>Session controller\<close>

text \<open>
  The variables that one call of \<open>_record\<close> or \<open>_updateRecord\<close> closes over, and what
  the host keeps for it:
  \<^item> \<open>isStopped\<close>, the flag of the closure;
  \<^item> \<open>interval\<close>, the repeating timer: \<open>Some recordId\<close> while a timer set by
    \<open>setInterval\<close> is scheduled, with the record id its callback closed over, and \<open>None\<close>
    before \<open>setInterval\<close> and after \<open>clearInterval\<close>;
  \<^item> \<open>awaiting\<close>, whether the promise chain of the \<open>createRecord\<close> request has yet to run;
  \<^item> \<open>inflight\<close>, the number of \<open>updateRecord\<close> requests whose promise chains have
    yet to run.
\<close>

record session =
  isStopped :: bool
  interval :: "jsval option"
  awaiting :: bool
  inflight :: nat

definition idle :: session where
  "idle = \<lparr> isStopped = False, interval = None, awaiting = False, inflight = 0 \<rparr>"

definition own_site_warning :: string where
  "own_site_warning = ''Tracker ignores you because this is your own site''"

text \<open>
  A callback of the caller (\<open>next\<close> of \<open>record\<close> and \<open>action\<close>), when it is a function:
  called with the id, it returns (\<open>None\<close>) or throws.
\<close>

type_synonym callback = "jsval \<Rightarrow> js_error option"

text \<open>\<open>if (typeof next === 'function') return next(id)\<close>, after the effects \<open>out\<close>.\<close>

definition call_next ::
  "callback option \<Rightarrow> jsval \<Rightarrow> 's \<Rightarrow> effect list \<Rightarrow> (js_error + unit) \<times> 's \<times> effect list" where
  "call_next next ident s out =
     (case next of
        None \<Rightarrow> (Inr (), s, out)
      | Some f \<Rightarrow>
          (case f ident of
             None \<Rightarrow> (Inr (), s, out @ [Invoke ident])
           | Some e \<Rightarrow> (Inl e, s, out @ [Invoke ident])))"

text \<open>\<open>json.data.createRecord.payload.id\<close> and \<open>json.data.createAction.payload.id\<close>.\<close>

definition payload_id :: "string \<Rightarrow> jsval \<Rightarrow> js_error + jsval" where
  "payload_id mutation json =
     and_then (get_prop json ''data'') (\<lambda>d.
     and_then (get_prop d mutation) (\<lambda>m.
     and_then (get_prop m ''payload'') (\<lambda>p.
       get_prop p ''id'')))"

text \<open>
  The interval callback of \<open>_record\<close> and \<open>_updateRecord\<close> (the two are the same text),
  run with the \<open>document.visibilityState\<close> of that moment. When its \<open>send\<close> throws,
  the exception leaves the callback and the timer stays scheduled.
\<close>

definition tick ::
  "string \<Rightarrow> tracker_options \<Rightarrow> jsval \<Rightarrow> string \<Rightarrow> session \<Rightarrow> session \<times> effect list" where
  "tick u opts recordId visibilityState s =
     (if isStopped s then (s\<lparr>interval := None\<rparr>, [ClearInterval])
      else if isInBackground visibilityState then (s, [])
      else (case send_call u (updateRecordBody recordId) opts of
              Inl e \<Rightarrow> (s, [Uncaught e])
            | Inr q \<Rightarrow> (s\<lparr>inflight := Suc (inflight s)\<rparr>, [Fetch q])))"

text \<open>The callback that \<open>_record\<close> hands to \<open>send\<close>.\<close>

definition record_created :: "callback option \<Rightarrow> session continuation" where
  "record_created next json s =
     (case payload_id ''createRecord'' json of
        Inl e \<Rightarrow> (Inl e, s, [])
      | Inr recordId \<Rightarrow>
          if isFakeId recordId then (Inr (), s, [Warn own_site_warning])
          else call_next next recordId (s\<lparr>interval := Some recordId\<rparr>) [SetInterval 15000])"

text \<open>The callback that \<open>_action\<close> hands to \<open>send\<close>.\<close>

definition action_created :: "callback option \<Rightarrow> 's continuation" where
  "action_created next json s =
     (case payload_id ''createAction'' json of
        Inl e \<Rightarrow> (Inl e, s, [])
      | Inr actionId \<Rightarrow>
          if isFakeId actionId then (Inr (), s, [Warn own_site_warning])
          else call_next next actionId s [])"

text \<open>
  The handle \<open>{ stop }\<close> that \<open>record\<close> and \<open>updateRecord\<close> return: of the real instance,
  \<open>stop\<close> sets \<open>isStopped\<close>; of the fake instance, \<open>stop\<close> is \<open>noop\<close>.
\<close>

datatype handle = StopHandle | NoopHandle

fun stop :: "handle \<Rightarrow> session \<Rightarrow> session" where
  "stop StopHandle s = s\<lparr>isStopped := True\<rparr>"
| "stop NoopHandle s = s"

text \<open>
  The part of \<open>_record\<close> that runs during the call: the default of \<open>attrs\<close> replaces
  \<open>undefined\<close>, the flag is cleared and \<open>send\<close> is called for \<open>createRecord\<close>. When
  \<open>send\<close> throws, \<open>_record\<close> throws (\<open>Inl\<close>) and returns no handle; otherwise the request
  is out and the handle is returned.
\<close>

definition real_record ::
  "environment \<Rightarrow> string \<Rightarrow> tracker_options \<Rightarrow> jsval \<Rightarrow> jsval
     \<Rightarrow> js_error + handle \<times> session \<times> effect list" where
  "real_record env u opts domainId attrs_arg =
     (let attrs = (if attrs_arg = JUndefined then attributes env (detailed opts) else attrs_arg)
      in case send_call u (createRecordBody domainId attrs) opts of
           Inl e \<Rightarrow> Inl e
         | Inr q \<Rightarrow> Inr (StopHandle, idle\<lparr>awaiting := True\<rparr>, [Fetch q]))"

definition real_updateRecord ::
  "string \<Rightarrow> tracker_options \<Rightarrow> jsval \<Rightarrow> handle \<times> session \<times> effect list" where
  "real_updateRecord u opts recordId =
     (if isFakeId recordId then (StopHandle, idle, [Warn own_site_warning])
      else (StopHandle, idle\<lparr>interval := Some recordId\<rparr>, [SetInterval 15000]))"

text \<open>\<open>_action\<close> and \<open>_updateAction\<close> during the call; \<open>Inl\<close> when \<open>send\<close> throws.\<close>

definition real_action ::
  "string \<Rightarrow> tracker_options \<Rightarrow> jsval \<Rightarrow> jsval \<Rightarrow> js_error + effect list" where
  "real_action u opts eventId attrs =
     (case send_call u (createActionBody eventId attrs) opts of
        Inl e \<Rightarrow> Inl e
      | Inr q \<Rightarrow> Inr [Fetch q])"

definition real_updateAction ::
  "string \<Rightarrow> tracker_options \<Rightarrow> jsval \<Rightarrow> jsval \<Rightarrow> js_error + effect list" where
  "real_updateAction u opts actionId attrs =
     (if isFakeId actionId then Inr [Warn own_site_warning]
      else case send_call u (updateActionBody actionId attrs) opts of
             Inl e \<Rightarrow> Inl e
           | Inr q \<Rightarrow> Inr [Fetch q])"

subsection \<open>The instance\<close>

datatype tracker = FakeInstance | RealInstance string tracker_options

definition create :: "environment \<Rightarrow> string \<Rightarrow> jsval \<Rightarrow> js_error + tracker \<times> effect list" where
  "create env server arg =
     and_then (validate arg) (\<lambda>opts.
       let u = endpoint server in
       if ignoreLocalhost opts \<and> isLocalhost (hostname env)
       then Inr (FakeInstance, [Warn ''Tracker ignores you because you are on localhost''])
       else if isBot (userAgent env)
       then Inr (FakeInstance, [Warn ''Tracker ignores you because you are a bot''])
       else Inr (RealInstance u opts, []))"

fun tracker_record ::
  "tracker \<Rightarrow> environment \<Rightarrow> jsval \<Rightarrow> jsval \<Rightarrow> js_error + handle \<times> session \<times> effect list" where
  "tracker_record FakeInstance env domainId attrs = Inr (NoopHandle, idle, [])"
| "tracker_record (RealInstance u opts) env domainId attrs = real_record env u opts domainId attrs"

fun tracker_updateRecord :: "tracker \<Rightarrow> jsval \<Rightarrow> handle \<times> session \<times> effect list" where
  "tracker_updateRecord FakeInstance recordId = (NoopHandle, idle, [])"
| "tracker_updateRecord (RealInstance u opts) recordId = real_updateRecord u opts recordId"

fun tracker_action :: "tracker \<Rightarrow> jsval \<Rightarrow> jsval \<Rightarrow> js_error + effect list" where
  "tracker_action FakeInstance eventId attrs = Inr []"
| "tracker_action (RealInstance u opts) eventId attrs = real_action u opts eventId attrs"

fun tracker_updateAction :: "tracker \<Rightarrow> jsval \<Rightarrow> jsval \<Rightarrow> js_error + effect list" where
  "tracker_updateAction FakeInstance actionId attrs = Inr []"
| "tracker_updateAction (RealInstance u opts) actionId attrs = real_updateAction u opts actionId attrs"

subsection \<open>The session on the event loop\<close>

text \<open>
  What can happen to a session after the call that made it, one event at a time (the
  page is single-threaded):
  \<^item> \<open>Elapse v\<close>: a period of 15000 ms ends while \<open>document.visibilityState\<close> is \<open>v\<close>;
    the host runs the interval callback if the timer is scheduled (a tick);
  \<^item> \<open>StopCalled\<close>: the caller calls \<open>stop()\<close> of the handle;
  \<^item> \<open>CreateSettled o\<close>: the network answers the \<open>createRecord\<close> request with \<open>o\<close> and
    the promise chain of its \<open>send\<close> runs (once: later such events find nothing awaiting);
  \<^item> \<open>HeartbeatSettled o\<close>: the network answers an outstanding \<open>updateRecord\<close> request
    and the promise chain of its \<open>send\<close>, which has no \<open>next\<close>, runs.
\<close>

datatype event =
    Elapse string
  | StopCalled
  | CreateSettled fetch_outcome
  | HeartbeatSettled fetch_outcome

fun step ::
  "string \<Rightarrow> tracker_options \<Rightarrow> callback option \<Rightarrow> handle \<Rightarrow> event \<Rightarrow> session
     \<Rightarrow> session \<times> effect list" where
  "step u opts next h (Elapse v) s =
     (case interval s of
        None \<Rightarrow> (s, [])
      | Some recordId \<Rightarrow> tick u opts recordId v s)"
| "step u opts next h StopCalled s = (stop h s, [])"
| "step u opts next h (CreateSettled outcome) s =
     (if awaiting s
      then (let (r, s', out) = settle (Some (record_created next)) outcome (s\<lparr>awaiting := False\<rparr>)
            in (s', out))
      else (s, []))"
| "step u opts next h (HeartbeatSettled outcome) s =
     (if inflight s = 0 then (s, [])
      else (let (r, s', out) = settle None outcome (s\<lparr>inflight := inflight s - 1\<rparr>)
            in (s', out)))"

fun run ::
  "string \<Rightarrow> tracker_options \<Rightarrow> callback option \<Rightarrow> handle \<Rightarrow> event list \<Rightarrow> session
     \<Rightarrow> session \<times> effect list" where
  "run u opts next h [] s = (s, [])"
| "run u opts next h (e # es) s =
     (let (s1, out1) = step u opts next h e s;
          (s2, out2) = run u opts next h es s1
      in (s2, out1 @ out2))"

fun is_fetch :: "effect \<Rightarrow> bool" where
  "is_fetch (Fetch q) = True"
| "is_fetch e = False"

fun is_create_settled :: "event \<Rightarrow> bool" where
  "is_create_settled (CreateSettled outcome) = True"
| "is_create_settled e = False"

section \<open>Notions of the specification\<close>

text \<open>
  The query-string parameter named \<open>source\<close> as the specification words it, for
  comparison with \<open>source\<close>: the query string without its leading question mark is a
  list of parameters separated by \<open>&\<close>; the first one whose text starts with \<open>source=\<close>
  gives the value, the text after the \<open>=\<close>; the value is absent when there is no such
  parameter or the text is empty.
\<close>

definition spec_source :: "string \<Rightarrow> string option" where
  "spec_source q =
     (let params = js_split ''&'' (case q of [] \<Rightarrow> [] | c # cs \<Rightarrow> if c = CHR ''?'' then cs else q)
      in case filter (starts_with ''source='') params of
           [] \<Rightarrow> None
         | p # _ \<Rightarrow> (if drop 7 p = [] then None else Some (drop 7 p)))"

text \<open>
  A clean answer: the status is successful, the body parses, and the parsed body has
  no top-level \<open>errors\<close> member (it is absent or \<open>null\<close>). \<open>clean_json\<close> is the parsed
  body of a clean answer.
\<close>

fun clean_json :: "fetch_outcome \<Rightarrow> jsval option" where
  "clean_json (Rejected e) = None"
| "clean_json (Responded ok (Inl e)) = None"
| "clean_json (Responded ok (Inr json)) =
     (if ok \<and> (get_prop json ''errors'' = Inr JUndefined \<or> get_prop json ''errors'' = Inr JNull)
      then Some json else None)"

text \<open>The record id that a clean answer to \<open>createRecord\<close> delivers, if it has one.\<close>

definition created_id :: "fetch_outcome \<Rightarrow> jsval option" where
  "created_id outcome =
     (case clean_json outcome of
        None \<Rightarrow> None
      | Some json \<Rightarrow> (case payload_id ''createRecord'' json of Inl e \<Rightarrow> None | Inr i \<Rightarrow> Some i))"

fun is_invoke :: "effect \<Rightarrow> bool" where
  "is_invoke (Invoke v) = True"
| "is_invoke e = False"

text \<open>A clean answer to \<open>createRecord\<close> that delivers the id \<open>ident\<close>.\<close>

definition created :: "string \<Rightarrow> fetch_outcome" where
  "created ident =
     Responded True (Inr (JObj [(''data'',
       JObj [(''createRecord'', JObj [(''payload'', JObj [(''id'', JStr ident)])])])]))"




text \<open>A page and options to run the program on.\<close>

definition example_page :: environment where
  "example_page =
     \<lparr> search = ''?source=newsletter'', href = ''https://example.com/?source=newsletter'',
       referrer = '''', hostname = ''example.com'',
       userAgent = ''Mozilla/5.0 (X11; Linux x86_64; rv:120.0) Gecko/20100101 Firefox/120.0'',
       language = ''en-GB'', screenWidth = JNum 1920, screenHeight = JNum 1080,
       screenColorDepth = JNum 24, platformProduct = JNull, platformManufacturer = JNull,
       platformOsFamily = JStr ''Linux'', platformOsVersion = JNull,
       platformName = JStr ''Firefox'', platformVersion = JStr ''120.0'',
       outerWidth = JNum 1280, outerHeight = JNum 720 \<rparr>"

definition example_options :: tracker_options where
  "example_options = \<lparr> detailed = False, ignoreLocalhost = True, ignoreOwnVisits = True \<rparr>"


section \<open>Endpoint construction\<close>

lemma substr_last_slash: "(substr_last s = ''/'') = (s \<noteq> [] \<and> last s = CHR ''/'')"
proof (cases s rule: rev_cases)
  case Nil
  then show ?thesis by (simp add: substr_last_def)
next
  case (snoc ys y)
  then show ?thesis by (simp add: substr_last_def)
qed

text \<open>
  C8. For every server base URL string, the endpoint is the base URL without one
  trailing slash, if it has one, followed by \<open>/api\<close>: \<open>api\<close> is appended with exactly one
  separating slash whether or not the base URL ends in a slash, and
  \<open>https://sol.example.com\<close> and \<open>https://sol.example.com/\<close> both give
  \<open>https://sol.example.com/api\<close>.
\<close>

theorem endpoint_single_slash:
  "endpoint server =
     (if server \<noteq> [] \<and> last server = CHR ''/'' then butlast server else server) @ ''/api''
   \<and> endpoint (base @ ''/'') = base @ ''/api''
   \<and> endpoint ''https://sol.example.com'' = ''https://sol.example.com/api''
   \<and> endpoint ''https://sol.example.com/'' = ''https://sol.example.com/api''"
proof -
  have general: "endpoint s =
      (if s \<noteq> [] \<and> last s = CHR ''/'' then butlast s else s) @ ''/api''" for s
  proof (cases "s \<noteq> [] \<and> last s = CHR ''/''")
    case True
    then have "butlast s @ ''/'' = s"
      using append_butlast_last_id [of s] by simp
    then have "butlast s @ ''/api'' = s @ ''api''"
      by (metis append.assoc append_Cons append_Nil)
    with True show ?thesis
      by (simp add: endpoint_def substr_last_slash)
  next
    case False
    then show ?thesis
      by (auto simp add: endpoint_def substr_last_slash)
  qed
  have "endpoint (base @ ''/'') = base @ ''/api''"
    by (simp add: general)
  moreover have "endpoint ''https://sol.example.com'' = ''https://sol.example.com/api''"
    by (simp add: general)
  moreover have "endpoint ''https://sol.example.com/'' = ''https://sol.example.com/api''"
    by (simp add: general)
  ultimately show ?thesis
    using general [of server] by simp
qed

section \<open>Credential policy\<close>

text \<open>
  C5. The request that \<open>send\<close> issues carries no ambient credentials (\<open>omit\<close>) exactly
  when the validated option \<open>ignoreOwnVisits\<close> is true, and includes them exactly when it
  is false; that request is the first effect of every call of \<open>send\<close> that issues one
  (a call that throws in \<open>JSON.stringify\<close> has no effect at all).
\<close>

theorem credentials_follow_ignoreOwnVisits:
  "(req_credentials (send_request u text opts) = Omit) = ignoreOwnVisits opts
   \<and> (req_credentials (send_request u text opts) = Include) = (\<not> ignoreOwnVisits opts)
   \<and> (case stringify b of
         Inl e \<Rightarrow> snd (snd (send u b opts next outcome s)) = []
       | Inr written \<Rightarrow>
           hd (snd (snd (send u b opts next outcome s))) = Fetch (send_request u written opts))"
  by (simp add: send_request_def send_def send_call_def split: prod.splits sum.splits)

section \<open>Options validation\<close>

lemma get_prop_total: "v \<noteq> JUndefined \<Longrightarrow> v \<noteq> JNull \<Longrightarrow> \<exists>w. get_prop v k = Inr w"
  by (cases v) simp_all

text \<open>
  On every input but \<open>null\<close>, \<open>validate\<close> returns, with each field at its default unless
  the input is an object that has the opposite boolean literal for it.
\<close>

lemma validate_defined:
  assumes "arg \<noteq> JNull"
  shows "validate arg =
     Inr \<lparr> detailed = (get_prop (if arg = JUndefined then JObj [] else arg) ''detailed'' = Inr (JBool True)),
           ignoreLocalhost =
             (get_prop (if arg = JUndefined then JObj [] else arg) ''ignoreLocalhost'' \<noteq> Inr (JBool False)),
           ignoreOwnVisits =
             (get_prop (if arg = JUndefined then JObj [] else arg) ''ignoreOwnVisits'' \<noteq> Inr (JBool False)) \<rparr>"
proof -
  define options where "options = (if arg = JUndefined then JObj [] else arg)"
  have ne: "options \<noteq> JUndefined" "options \<noteq> JNull"
    using assms by (auto simp add: options_def)
  obtain d l v where props:
    "get_prop options ''detailed'' = Inr d"
    "get_prop options ''ignoreLocalhost'' = Inr l"
    "get_prop options ''ignoreOwnVisits'' = Inr v"
    using get_prop_total [OF ne] by metis
  have "validate arg =
      Inr \<lparr> detailed = (d = JBool True), ignoreLocalhost = (l \<noteq> JBool False),
            ignoreOwnVisits = (v \<noteq> JBool False) \<rparr>"
    using props by (simp add: validate_def options_def [symmetric])
  then show ?thesis
    using props by (simp add: options_def [symmetric])
qed

lemma validate_examples:
  "validate JUndefined = Inr \<lparr> detailed = False, ignoreLocalhost = True, ignoreOwnVisits = True \<rparr>"
  "validate (JObj [(''detailed'', JBool True), (''ignoreLocalhost'', JBool False)]) =
     Inr \<lparr> detailed = True, ignoreLocalhost = False, ignoreOwnVisits = True \<rparr>"
  "validate (JObj [(''colour'', JStr ''red''), (''ignoreOwnVisits'', JNum 0)]) =
     Inr \<lparr> detailed = False, ignoreLocalhost = True, ignoreOwnVisits = True \<rparr>"
  by (simp_all add: validate_def)

text \<open>
  C7. The claim that no input makes \<open>validate\<close> raise an error fails at \<open>null\<close>: the
  default \<open>{}\<close> of the parameter replaces \<open>undefined\<close> only, and \<open>options.detailed\<close> on
  \<open>null\<close> throws a \<open>TypeError\<close>.
\<close>

theorem validate_null_throws: "validate JNull = Inl TypeError"
  by (simp add: validate_def)

section \<open>The source attribute\<close>

text \<open>
  C6. The source field is not always the value of the parameter named \<open>source\<close>: for
  the query string \<open>?resource=report&source=twitter\<close> the parameter has the value
  \<open>twitter\<close>, and \<open>source()\<close>, which cuts the query string at the first \<open>source=\<close> wherever
  it stands, returns \<open>report\<close>, the value of the parameter \<open>resource\<close>; the attribute
  collector sends that value.
\<close>

theorem source_takes_other_parameter:
  "source ''?resource=report&source=twitter'' = Some ''report''
   \<and> spec_source ''?resource=report&source=twitter'' = Some ''twitter''
   \<and> map_of (defaultData (env\<lparr>search := ''?resource=report&source=twitter''\<rparr>)) ''source''
       = Some (JStr ''report'')"
proof -
  have a: "source ''?resource=report&source=twitter'' = Some ''report''"
    by (simp add: source_def js_split_def starts_with_def)
  have b: "spec_source ''?resource=report&source=twitter'' = Some ''twitter''"
    by (simp add: spec_source_def js_split_def starts_with_def)
  have c: "map_of (defaultData (env\<lparr>search := ''?resource=report&source=twitter''\<rparr>)) ''source''
       = Some (JStr ''report'')"
    by (simp add: defaultData_def a)
  from a b c show ?thesis by simp
qed

section \<open>Errors at the boundary of send\<close>

lemma settle_unclean:
  "clean_json outcome = None \<Longrightarrow> \<exists>e. settle next outcome s = (Inr (), s, [LogError e])"
proof (cases outcome)
  case (Rejected e)
  then show ?thesis by (simp add: settle_def)
next
  case (Responded ok body)
  assume unclean: "clean_json outcome = None"
  show ?thesis
  proof (cases body)
    case (Inl e)
    with Responded show ?thesis by (simp add: settle_def on_response_def)
  next
    case (Inr json)
    show ?thesis
    proof (cases ok)
      case False
      with Responded show ?thesis by (simp add: settle_def on_response_def)
    next
      case True
      show ?thesis
      proof (cases "get_prop json ''errors''")
        case (Inl e)
        with True Inr Responded show ?thesis
          by (simp add: settle_def on_response_def on_json_def)
      next
        case errs: (Inr errors)
        with unclean True Inr Responded have "\<not> loosely_null errors"
          by (auto simp add: loosely_null_def)
        with errs True Inr Responded show ?thesis
          by (simp add: settle_def on_response_def on_json_def split: sum.splits)
      qed
    qed
  qed
qed

lemma clean_json_SomeD:
  "clean_json outcome = Some json \<Longrightarrow>
     outcome = Responded True (Inr json) \<and>
     (\<exists>errors. get_prop json ''errors'' = Inr errors \<and> loosely_null errors)"
  by (induction outcome rule: clean_json.induct) (auto simp add: loosely_null_def split: if_splits)

lemma settle_clean_None:
  "clean_json outcome = Some json \<Longrightarrow> settle None outcome s = (Inr (), s, [])"
  by (auto dest!: clean_json_SomeD simp add: settle_def on_response_def on_json_def)

lemma settle_clean_Some:
  "clean_json outcome = Some json \<Longrightarrow>
     settle (Some f) outcome s =
       (case f json s of (r, s', out) \<Rightarrow>
          (Inr (), s', out @ (case r of Inl e \<Rightarrow> [LogError e] | Inr u \<Rightarrow> [])))"
  by (auto dest!: clean_json_SomeD simp add: settle_def on_response_def on_json_def
      split: prod.splits sum.splits)

lemma settle_fulfils: "fst (settle next outcome s) = Inr ()"
  by (simp add: settle_def split: prod.splits sum.splits fetch_outcome.splits)

lemma created_id_SomeD:
  "created_id outcome = Some ident \<Longrightarrow>
     \<exists>json. clean_json outcome = Some json \<and> payload_id ''createRecord'' json = Inr ident"
  by (auto simp add: created_id_def split: option.splits sum.splits)

lemma settle_record_created:
  assumes "created_id outcome = Some ident"
  shows "settle (Some (record_created nxt)) outcome sess =
     (if isFakeId ident then (Inr (), sess, [Warn own_site_warning])
      else case nxt of
             None \<Rightarrow> (Inr (), sess\<lparr>interval := Some ident\<rparr>, [SetInterval 15000])
           | Some cb \<Rightarrow>
               (Inr (), sess\<lparr>interval := Some ident\<rparr>,
                [SetInterval 15000, Invoke ident]
                @ (case cb ident of None \<Rightarrow> [] | Some e \<Rightarrow> [LogError e])))"
proof -
  from created_id_SomeD [OF assms] obtain json where
    c: "clean_json outcome = Some json" and p: "payload_id ''createRecord'' json = Inr ident"
    by blast
  show ?thesis
    using p by (simp add: settle_clean_Some [OF c] record_created_def call_next_def
        split: option.splits)
qed

lemma settle_record_no_id:
  assumes "created_id outcome = None"
  shows "\<exists>e. settle (Some (record_created nxt)) outcome sess = (Inr (), sess, [LogError e])"
proof (cases "clean_json outcome")
  case None
  then show ?thesis by (rule settle_unclean)
next
  case (Some json)
  with assms obtain e where "payload_id ''createRecord'' json = Inl e"
    by (auto simp add: created_id_def split: sum.splits)
  then show ?thesis
    by (simp add: settle_clean_Some [OF Some] record_created_def)
qed

lemma created_id_created: "created_id (created ident) = Some (JStr ident)"
  by (simp add: created_def created_id_def payload_id_def)

lemma send_returns:
  "stringify b = Inr written \<Longrightarrow>
     send u b opts nxt outcome s =
       (case settle nxt outcome s of (r, s', out) \<Rightarrow>
          (Inr r, s', Fetch (send_request u written opts) # out))"
  by (simp add: send_def send_call_def)

lemma send_throws:
  "stringify b = Inl e \<Longrightarrow> send u b opts nxt outcome s = (Inl e, s, [])"
  by (simp add: send_def send_call_def)

lemma stringify_examples:
  "stringify (createActionBody (JStr ''e1'') (JObj [(''value'', JBigInt 10)])) = Inl TypeError"
  "stringify (createRecordBody (JStr ''d1'') (JObj [(''visits'', JBigInt 3)])) = Inl TypeError"
  "stringify (updateRecordBody (JBigInt 7)) = Inl TypeError"
  "stringify (updateRecordBody (JStr ''r1'')) = Inr (updateRecordBody (JStr ''r1''))"
  "stringify (createRecordBody (JStr ''d1'') JNull) = Inr (createRecordBody (JStr ''d1'') JNull)"
  by (simp_all add: stringify_def createActionBody_def createRecordBody_def updateRecordBody_def)

text \<open>
  C4, as the claim states it, fails: \<open>JSON.stringify(body)\<close> is evaluated before
  \<open>fetch\<close> is called and outside the promise chain, so a call of \<open>send\<close> whose body
  holds a BigInt issues no request, logs nothing and throws a \<open>TypeError\<close> to its
  caller.
\<close>

theorem send_unserialisable_body_no_request:
  "send ''https://sol.example.com/api''
        (createActionBody (JStr ''e1'') (JObj [(''value'', JBigInt 10)]))
        example_options None (Responded True (Inr (JObj []))) (0::nat)
     = (Inl TypeError, 0, [])"
  by (simp add: send_throws stringify_examples)

text \<open>
  C4, amended. For every call of \<open>send\<close> whose body \<open>JSON.stringify\<close> accepts: an
  answer with a non-successful status is logged as
  \<open>Server returned with an unhandled status\<close>, and a body with a top-level \<open>errors\<close> list
  is logged as an error carrying the message of the first error; in both cases, and in
  every case in which the answer is not clean, the state of the caller is untouched,
  exactly one error is logged and \<open>next\<close> has no part in the result. \<open>send\<close> returns
  and the last promise of the chain always fulfils, so nothing reaches the caller.
  When the answer is clean, a \<open>next\<close> that is a function is called with the parsed
  body. The call issues exactly one request.
\<close>

theorem send_logs_errors_and_calls_back_when_clean:
  assumes "stringify b = Inr written"
  shows "send u b opts nxt (Responded False body) s =
     (Inr (Inr ()), s, [Fetch (send_request u written opts),
                  LogError (Error (JStr ''Server returned with an unhandled status''))])
   \<and> (get_prop json ''errors'' = Inr (JArr (first # others)) \<and> get_prop first ''message'' = Inr message
        \<longrightarrow> send u b opts nxt (Responded True (Inr json)) s =
              (Inr (Inr ()), s, [Fetch (send_request u written opts), LogError (Error message)]))
   \<and> fst (send u b opts nxt outcome s) = Inr (Inr ())
   \<and> (clean_json outcome = None
        \<longrightarrow> (\<exists>e. send u b opts nxt outcome s =
                   (Inr (Inr ()), s, [Fetch (send_request u written opts), LogError e])))
   \<and> (clean_json outcome = Some parsed
        \<longrightarrow> send u b opts (Some f) outcome s =
              (case f parsed s of (r, s', out) \<Rightarrow>
                 (Inr (Inr ()), s', Fetch (send_request u written opts) # out
                              @ (case r of Inl e \<Rightarrow> [LogError e] | Inr u \<Rightarrow> []))))
   \<and> filter is_fetch (snd (snd (send u b opts None outcome s)))
       = [Fetch (send_request u written opts)]"
proof -
  note ret = send_returns [OF assms]
  have status: "send u b opts nxt (Responded False body) s =
     (Inr (Inr ()), s, [Fetch (send_request u written opts),
                  LogError (Error (JStr ''Server returned with an unhandled status''))])"
    by (simp add: ret settle_def on_response_def)
  have errors: "send u b opts nxt (Responded True (Inr json)) s =
              (Inr (Inr ()), s, [Fetch (send_request u written opts), LogError (Error message)])"
    if "get_prop json ''errors'' = Inr (JArr (first # others))"
      and "get_prop first ''message'' = Inr message"
    using that by (simp add: ret settle_def on_response_def on_json_def loosely_null_def)
  have fulfils: "fst (send u b opts nxt outcome s) = Inr (Inr ())"
    using settle_fulfils [of nxt outcome s]
    by (cases "settle nxt outcome s") (simp add: ret)
  have unclean: "\<exists>e. send u b opts nxt outcome s =
                   (Inr (Inr ()), s, [Fetch (send_request u written opts), LogError e])"
    if "clean_json outcome = None"
    using settle_unclean [OF that, of nxt s] by (auto simp add: ret)
  have clean: "send u b opts (Some f) outcome s =
              (case f parsed s of (r, s', out) \<Rightarrow>
                 (Inr (Inr ()), s', Fetch (send_request u written opts) # out
                              @ (case r of Inl e \<Rightarrow> [LogError e] | Inr u \<Rightarrow> [])))"
    if "clean_json outcome = Some parsed"
    using settle_clean_Some [OF that, of f s] by (simp add: ret split: prod.splits)
  have one: "filter is_fetch (snd (snd (send u b opts None outcome s)))
       = [Fetch (send_request u written opts)]"
  proof (cases "clean_json outcome")
    case None
    from settle_unclean [OF this, of None s] show ?thesis
      by (auto simp add: ret)
  next
    case (Some j)
    from settle_clean_None [OF this, of s] show ?thesis
      by (simp add: ret)
  qed
  from status errors fulfils unclean clean one show ?thesis
    by blast
qed

theorem send_logs_errors_and_calls_back_when_clean_witness:
  "stringify (updateRecordBody (JStr ''r1'')) = Inr (updateRecordBody (JStr ''r1''))
   \<and> send ''https://sol.example.com/api'' (updateRecordBody (JStr ''r1'')) example_options None
        (Responded True (Inr (JObj [(''errors'', JArr [JObj [(''message'', JStr ''boom'')]])]))) (0::nat)
     = (Inr (Inr ()), 0,
        [Fetch (send_request ''https://sol.example.com/api'' (updateRecordBody (JStr ''r1''))
                  example_options),
         LogError (Error (JStr ''boom''))])
   \<and> (\<exists>e. send ''https://sol.example.com/api'' (updateRecordBody (JStr ''r1'')) example_options None
        (Rejected TypeError) (0::nat)
     = (Inr (Inr ()), 0,
        [Fetch (send_request ''https://sol.example.com/api'' (updateRecordBody (JStr ''r1''))
                  example_options),
         LogError e]))
   \<and> send ''https://sol.example.com/api'' (updateRecordBody (JStr ''r1'')) example_options
        (Some (\<lambda>j n. (Inr (), Suc n, [Invoke j])))
        (Responded True (Inr (JObj [(''data'', JNull)]))) (0::nat)
     = (Inr (Inr ()), 1,
        [Fetch (send_request ''https://sol.example.com/api'' (updateRecordBody (JStr ''r1''))
                  example_options),
         Invoke (JObj [(''data'', JNull)])])"
proof -
  have ok: "stringify (updateRecordBody (JStr ''r1'')) = Inr (updateRecordBody (JStr ''r1''))"
    by (rule stringify_examples)
  show ?thesis
    using ok
      send_logs_errors_and_calls_back_when_clean
        [OF ok, where json = "JObj [(''errors'', JArr [JObj [(''message'', JStr ''boom'')]])]"
           and first = "JObj [(''message'', JStr ''boom'')]" and others = "[]"
           and message = "JStr ''boom''" and u = "''https://sol.example.com/api''"
           and opts = example_options
           and nxt = None and s = "0::nat" and outcome = "Rejected TypeError"]
      send_logs_errors_and_calls_back_when_clean
        [OF ok, where outcome = "Responded True (Inr (JObj [(''data'', JNull)]))"
           and parsed = "JObj [(''data'', JNull)]"
           and f = "\<lambda>j n. (Inr (), Suc n, [Invoke j])"
           and u = "''https://sol.example.com/api''"
           and opts = example_options
           and s = "0::nat"]
    by simp
qed

text \<open>
  C10, as the claim states it, fails: an invocation of \<open>send\<close> whose body holds a
  BigInt throws a \<open>TypeError\<close> to its caller, whatever the answer and the callback
  would have done, and so \<open>record\<close> throws to the page that called it.
\<close>

theorem send_throws_past_its_boundary:
  "fst (send ''https://sol.example.com/api''
          (createRecordBody (JStr ''d1'') (JObj [(''visits'', JBigInt 3)]))
          example_options (Some (record_created (Some (\<lambda>i. None)))) (created ''r1'')
          (idle\<lparr>awaiting := True\<rparr>))
     = Inl TypeError
   \<and> real_record example_page ''https://sol.example.com/api'' example_options
        (JStr ''d1'') (JObj [(''visits'', JBigInt 3)])
     = Inl TypeError"
  by (simp add: send_throws stringify_examples real_record_def send_call_def)

text \<open>
  C10, amended. For every call of \<open>send\<close> whose body \<open>JSON.stringify\<close> accepts:
  whatever the answer and whatever \<open>next\<close> does, \<open>send\<close> returns and the last promise
  of its chain fulfils. When \<open>next\<close> is called and throws, \<open>send\<close> logs the error it
  threw; so it is with the callback of \<open>record\<close> when the caller's own callback throws.
\<close>

theorem send_catches_callback_exception:
  assumes "stringify b = Inr written"
  shows "fst (send u b opts nxt outcome s) = Inr (Inr ())
   \<and> (clean_json outcome = Some parsed \<and> f parsed s = (Inl e, s', out)
        \<longrightarrow> send u b opts (Some f) outcome s =
              (Inr (Inr ()), s', Fetch (send_request u written opts) # out @ [LogError e]))
   \<and> (created_id outcome = Some ident \<and> \<not> isFakeId ident \<and> cb ident = Some e
        \<longrightarrow> send u b opts (Some (record_created (Some cb))) outcome sess =
              (Inr (Inr ()), sess\<lparr>interval := Some ident\<rparr>,
               [Fetch (send_request u written opts), SetInterval 15000, Invoke ident, LogError e]))"
proof -
  note ret = send_returns [OF assms]
  have fulfils: "fst (send u b opts nxt outcome s) = Inr (Inr ())"
    using settle_fulfils [of nxt outcome s]
    by (cases "settle nxt outcome s") (simp add: ret)
  have thrown: "send u b opts (Some f) outcome s =
              (Inr (Inr ()), s', Fetch (send_request u written opts) # out @ [LogError e])"
    if "clean_json outcome = Some parsed" and "f parsed s = (Inl e, s', out)"
    using settle_clean_Some [OF that(1), of f s] that(2) by (simp add: ret)
  have in_record: "send u b opts (Some (record_created (Some cb))) outcome sess =
              (Inr (Inr ()), sess\<lparr>interval := Some ident\<rparr>,
               [Fetch (send_request u written opts), SetInterval 15000, Invoke ident, LogError e])"
    if "created_id outcome = Some ident" and "\<not> isFakeId ident" and "cb ident = Some e"
    using settle_record_created [OF that(1), of "Some cb" sess] that(2,3)
    by (simp add: ret)
  from fulfils thrown in_record show ?thesis
    by blast
qed

theorem send_catches_callback_exception_witness:
  "stringify (createRecordBody (JStr ''d1'') JNull) = Inr (createRecordBody (JStr ''d1'') JNull)
   \<and> send ''https://sol.example.com/api'' (createRecordBody (JStr ''d1'') JNull) example_options
        (Some (\<lambda>j n. (Inl (Thrown (JStr ''broken'')), Suc n, [Invoke j])))
        (Responded True (Inr (JObj []))) (0::nat)
     = (Inr (Inr ()), 1,
        [Fetch (send_request ''https://sol.example.com/api'' (createRecordBody (JStr ''d1'') JNull)
                  example_options),
         Invoke (JObj []), LogError (Thrown (JStr ''broken''))])
   \<and> send ''https://sol.example.com/api'' (createRecordBody (JStr ''d1'') JNull) example_options
        (Some (record_created (Some (\<lambda>i. Some (Thrown (JStr ''broken''))))))
        (created ''r1'') (idle\<lparr>awaiting := False\<rparr>)
     = (Inr (Inr ()), idle\<lparr>awaiting := False, interval := Some (JStr ''r1'')\<rparr>,
        [Fetch (send_request ''https://sol.example.com/api'' (createRecordBody (JStr ''d1'') JNull)
                  example_options),
         SetInterval 15000, Invoke (JStr ''r1''), LogError (Thrown (JStr ''broken''))])"
proof -
  have ok: "stringify (createRecordBody (JStr ''d1'') JNull) = Inr (createRecordBody (JStr ''d1'') JNull)"
    by (rule stringify_examples)
  show ?thesis
    using ok
      send_catches_callback_exception
        [OF ok, where outcome = "Responded True (Inr (JObj []))" and parsed = "JObj []"
           and f = "\<lambda>j n. (Inl (Thrown (JStr ''broken'')), Suc n, [Invoke j])"
           and s = "0::nat" and e = "Thrown (JStr ''broken'')" and s' = "1::nat"
           and out = "[Invoke (JObj [])]"
           and u = "''https://sol.example.com/api''"
           and opts = example_options
           and ident = "JStr ''zz''" and cb = "\<lambda>i. None"]
      send_catches_callback_exception
        [OF ok, where outcome = "created ''r1''" and ident = "JStr ''r1''"
           and cb = "\<lambda>i. Some (Thrown (JStr ''broken''))" and e = "Thrown (JStr ''broken'')"
           and sess = "idle\<lparr>awaiting := False\<rparr>"
           and u = "''https://sol.example.com/api''"
           and opts = example_options
           and parsed = JNull and f = "\<lambda>j (n::nat). (Inr (), n, [])" and s = "0::nat"]
    by (simp add: created_id_created isFakeId_def fake_id_def)
qed

section \<open>The session on the event loop: invariants\<close>

lemma run_append:
  "run u opts nxt h (xs @ ys) s =
     (case run u opts nxt h xs s of (s1, out1) \<Rightarrow>
        (case run u opts nxt h ys s1 of (s2, out2) \<Rightarrow> (s2, out1 @ out2)))"
  by (induction xs arbitrary: s) (simp_all split: prod.splits)

lemma step_create:
  assumes "awaiting s"
  shows "case created_id outcome of
           None \<Rightarrow> \<exists>e. step u opts nxt h (CreateSettled outcome) s = (s\<lparr>awaiting := False\<rparr>, [LogError e])
         | Some i \<Rightarrow>
             step u opts nxt h (CreateSettled outcome) s =
               (if isFakeId i then (s\<lparr>awaiting := False\<rparr>, [Warn own_site_warning])
                else (s\<lparr>awaiting := False, interval := Some i\<rparr>,
                      SetInterval 15000 #
                      (case nxt of
                         None \<Rightarrow> []
                       | Some cb \<Rightarrow> Invoke i # (case cb i of None \<Rightarrow> [] | Some e \<Rightarrow> [LogError e]))))"
proof (cases "created_id outcome")
  case None
  from settle_record_no_id [OF this, of nxt "s\<lparr>awaiting := False\<rparr>"] assms None
  show ?thesis by auto
next
  case (Some i)
  from settle_record_created [OF this, of nxt "s\<lparr>awaiting := False\<rparr>"] assms Some
  show ?thesis by (auto split: option.splits)
qed

lemma settle_None:
  "\<exists>out. settle None outcome s = (Inr (), s, out) \<and> (out = [] \<or> (\<exists>e. out = [LogError e]))"
proof (cases "clean_json outcome")
  case None
  from settle_unclean [OF this, of None s] show ?thesis by auto
next
  case (Some json)
  from settle_clean_None [OF this, of s] show ?thesis by simp
qed

lemma step_heartbeat:
  assumes "inflight s \<noteq> 0"
  shows "\<exists>out. step u opts nxt h (HeartbeatSettled outcome) s = (s\<lparr>inflight := inflight s - 1\<rparr>, out)
           \<and> (out = [] \<or> (\<exists>e. out = [LogError e]))"
  using settle_None [of outcome "s\<lparr>inflight := inflight s - 1\<rparr>"] assms by auto


lemma quiet_step:
  assumes "interval s = None" and "inflight s = 0" and "\<not> awaiting s \<or> \<not> is_create_settled e"
  shows "\<exists>b. step u opts nxt h e s = (s\<lparr>isStopped := b\<rparr>, [])"
proof (cases e)
  case (Elapse v)
  with assms have "step u opts nxt h e s = (s\<lparr>isStopped := isStopped s\<rparr>, [])" by simp
  then show ?thesis ..
next
  case StopCalled
  show ?thesis
  proof (cases h)
    case StopHandle
    with StopCalled have "step u opts nxt h e s = (s\<lparr>isStopped := True\<rparr>, [])" by simp
    then show ?thesis ..
  next
    case NoopHandle
    with StopCalled have "step u opts nxt h e s = (s\<lparr>isStopped := isStopped s\<rparr>, [])" by simp
    then show ?thesis ..
  qed
next
  case (CreateSettled outcome)
  with assms have "step u opts nxt h e s = (s\<lparr>isStopped := isStopped s\<rparr>, [])" by simp
  then show ?thesis ..
next
  case (HeartbeatSettled outcome)
  with assms have "step u opts nxt h e s = (s\<lparr>isStopped := isStopped s\<rparr>, [])" by simp
  then show ?thesis ..
qed

lemma quiet_run:
  assumes "interval s = None" and "inflight s = 0"
    and "\<not> awaiting s \<or> filter is_create_settled evs = []"
  shows "\<exists>b. run u opts nxt h evs s = (s\<lparr>isStopped := b\<rparr>, [])"
  using assms
proof (induction evs arbitrary: s)
  case Nil
  have "run u opts nxt h [] s = (s\<lparr>isStopped := isStopped s\<rparr>, [])" by simp
  then show ?case ..
next
  case (Cons e es)
  from Cons.prems(3) have ev: "\<not> awaiting s \<or> \<not> is_create_settled e"
    by (auto split: if_splits)
  from quiet_step [OF Cons.prems(1,2) ev] obtain b
    where st: "step u opts nxt h e s = (s\<lparr>isStopped := b\<rparr>, [])" by blast
  let ?s1 = "s\<lparr>isStopped := b\<rparr>"
  from Cons.prems have "interval ?s1 = None" and "inflight ?s1 = 0"
    and "\<not> awaiting ?s1 \<or> filter is_create_settled es = []"
    by (auto split: if_splits)
  from Cons.IH [OF this] obtain c
    where "run u opts nxt h es ?s1 = (?s1\<lparr>isStopped := c\<rparr>, [])" by blast
  with st have "run u opts nxt h (e # es) s = (s\<lparr>isStopped := c\<rparr>, [])" by simp
  then show ?case ..
qed






lemma settled_step:
  assumes "\<not> awaiting s" and "step u opts nxt h e s = (s', out)"
  shows "\<not> awaiting s' \<and> filter is_invoke out = [] \<and> interval s' = (if interval s' = None then None else interval s)"
proof (cases e)
  case (Elapse v)
  with assms show ?thesis
    by (auto simp add: tick_def split: option.splits if_splits sum.splits)
next
  case StopCalled
  with assms show ?thesis by (cases h) auto
next
  case (CreateSettled outcome)
  with assms show ?thesis by auto
next
  case (HeartbeatSettled outcome)
  show ?thesis
  proof (cases "inflight s = 0")
    case True
    with assms HeartbeatSettled show ?thesis by auto
  next
    case False
    from step_heartbeat [OF False, where outcome = outcome and u = u and opts = opts and nxt = nxt and h = h]
      assms HeartbeatSettled show ?thesis by auto
  qed
qed

lemma settled_run:
  assumes "\<not> awaiting s" and "run u opts nxt h evs s = (s', out)"
  shows "filter is_invoke out = [] \<and> (interval s' = None \<or> interval s' = interval s)"
  using assms
proof (induction evs arbitrary: s s' out)
  case Nil
  then show ?case by simp
next
  case (Cons e es)
  obtain s1 out1 where st: "step u opts nxt h e s = (s1, out1)" by (cases "step u opts nxt h e s")
  obtain s2 out2 where rn: "run u opts nxt h es s1 = (s2, out2)" by (cases "run u opts nxt h es s1")
  from Cons.prems(2) st rn have res: "s' = s2" "out = out1 @ out2" by simp_all
  note one = settled_step [OF Cons.prems(1) st]
  then have "\<not> awaiting s1" by simp
  note rest = Cons.IH [OF this rn]
  from one rest res show ?case by (auto split: if_splits)
qed



section \<open>The life of a session\<close>

lemma and_then_Inr:
  "(and_then x f = Inr y) = (\<exists>v. x = Inr v \<and> f v = Inr y)"
  by (cases x) simp_all

lemma real_record_returns:
  assumes "real_record env u opts domainId attrs = Inr (h, s0, out0)"
  shows "h = StopHandle \<and> s0 = idle\<lparr>awaiting := True\<rparr>
         \<and> (\<exists>written.
               stringify (createRecordBody domainId
                 (if attrs = JUndefined then attributes env (detailed opts) else attrs)) = Inr written
               \<and> out0 = [Fetch (send_request u written opts)])"
  using assms
  by (auto simp add: real_record_def send_call_def Let_def and_then_Inr split: sum.splits)

lemma real_record_serialisable:
  assumes "stringify (createRecordBody domainId attrs) = Inr written" and "attrs \<noteq> JUndefined"
  shows "real_record env u opts domainId attrs =
           Inr (StopHandle, idle\<lparr>awaiting := True\<rparr>, [Fetch (send_request u written opts)])"
  using assms by (simp add: real_record_def send_call_def)


lemma run_around_create:
  assumes "filter is_create_settled pre = []"
  shows "\<exists>b s1 out1 s2 out2.
           step u opts nxt StopHandle (CreateSettled outcome) (idle\<lparr>awaiting := True, isStopped := b\<rparr>)
             = (s1, out1)
           \<and> run u opts nxt StopHandle post s1 = (s2, out2)
           \<and> run u opts nxt StopHandle (pre @ CreateSettled outcome # post) (idle\<lparr>awaiting := True\<rparr>)
             = (s2, out1 @ out2)"
proof -
  let ?s0 = "idle\<lparr>awaiting := True\<rparr>"
  have "interval ?s0 = None" and "inflight ?s0 = 0"
    and "\<not> awaiting ?s0 \<or> filter is_create_settled pre = []"
    using assms by (simp_all add: idle_def)
  from quiet_run [OF this] obtain b
    where pre: "run u opts nxt StopHandle pre ?s0 = (?s0\<lparr>isStopped := b\<rparr>, [])" by blast
  obtain s1 out1 where
    st: "step u opts nxt StopHandle (CreateSettled outcome) (?s0\<lparr>isStopped := b\<rparr>) = (s1, out1)"
    by (cases "step u opts nxt StopHandle (CreateSettled outcome) (?s0\<lparr>isStopped := b\<rparr>)")
  obtain s2 out2 where rn: "run u opts nxt StopHandle post s1 = (s2, out2)"
    by (cases "run u opts nxt StopHandle post s1")
  from pre st rn
  have "run u opts nxt StopHandle (pre @ CreateSettled outcome # post) ?s0 = (s2, out1 @ out2)"
    by (simp add: run_append)
  with st rn show ?thesis by blast
qed

text \<open>
  C2. A call of \<open>record\<close> whose \<open>createRecord\<close> request is answered cleanly with the fake
  id: with the handle and the session that the call returned, whatever happens before
  the answer (periods ending, calls of \<open>stop\<close>) and after it, the only effect after the
  call is the warning that the visitor is ignored. So \<open>setInterval\<close> is never called, no
  \<open>updateRecord\<close> request is ever sent, and the session ends with no timer.
\<close>

theorem fake_id_schedules_nothing:
  assumes "real_record env u opts domainId attrs = Inr (h, s0, out0)"
    and "created_id outcome = Some (JStr fake_id)"
    and "filter is_create_settled pre = []"
  shows "\<exists>b. run u opts nxt h (pre @ CreateSettled outcome # post) s0
              = (idle\<lparr>isStopped := b\<rparr>, [Warn own_site_warning])"
proof -
  from real_record_returns [OF assms(1)]
  have h: "h = StopHandle" and s0: "s0 = idle\<lparr>awaiting := True\<rparr>" by simp_all
  from run_around_create [OF assms(3), of u opts nxt outcome post]
  obtain b s1 out1 s2 out2 where
    st: "step u opts nxt StopHandle (CreateSettled outcome) (idle\<lparr>awaiting := True, isStopped := b\<rparr>)
             = (s1, out1)"
    and rn: "run u opts nxt StopHandle post s1 = (s2, out2)"
    and all: "run u opts nxt StopHandle (pre @ CreateSettled outcome # post) (idle\<lparr>awaiting := True\<rparr>)
             = (s2, out1 @ out2)"
    by blast
  have aw: "awaiting (idle\<lparr>awaiting := True, isStopped := b\<rparr>)" by simp
  from step_create [OF aw, where outcome = outcome and u = u and opts = opts and nxt = nxt
      and h = StopHandle] assms(2) st
  have s1: "s1 = idle\<lparr>isStopped := b\<rparr>" and out1: "out1 = [Warn own_site_warning]"
    by (simp_all add: isFakeId_def idle_def)
  have "interval s1 = None" and "inflight s1 = 0" and "\<not> awaiting s1 \<or> filter is_create_settled post = []"
    by (simp_all add: s1 idle_def)
  from quiet_run [OF this, of u opts nxt StopHandle] rn obtain c
    where "s2 = s1\<lparr>isStopped := c\<rparr>" and "out2 = []" by auto
  with all s1 out1 have "run u opts nxt h (pre @ CreateSettled outcome # post) s0
      = (idle\<lparr>isStopped := c\<rparr>, [Warn own_site_warning])"
    by (simp add: h s0)
  then show ?thesis ..
qed

theorem fake_id_schedules_nothing_witness:
  "real_record example_page ''https://sol.example.com/api'' example_options (JStr ''d1'') JNull
     = Inr (StopHandle, idle\<lparr>awaiting := True\<rparr>,
            [Fetch (send_request ''https://sol.example.com/api''
                      (createRecordBody (JStr ''d1'') JNull) example_options)])
   \<and> created_id (created fake_id) = Some (JStr fake_id)
   \<and> filter is_create_settled [Elapse ''visible'', StopCalled] = []
   \<and> (\<exists>b. run ''https://sol.example.com/api'' example_options None StopHandle
              ([Elapse ''visible'', StopCalled] @ CreateSettled (created fake_id)
                 # [Elapse ''visible'', Elapse ''hidden''])
              (idle\<lparr>awaiting := True\<rparr>)
            = (idle\<lparr>isStopped := b\<rparr>, [Warn own_site_warning]))"
proof -
  have r: "real_record example_page ''https://sol.example.com/api'' example_options (JStr ''d1'') JNull
     = Inr (StopHandle, idle\<lparr>awaiting := True\<rparr>,
            [Fetch (send_request ''https://sol.example.com/api''
                      (createRecordBody (JStr ''d1'') JNull) example_options)])"
    by (rule real_record_serialisable) (simp_all add: stringify_examples)
  have a: "created_id (created fake_id) = Some (JStr fake_id)"
    by (rule created_id_created)
  have b: "filter is_create_settled [Elapse ''visible'', StopCalled] = []"
    by simp
  from fake_id_schedules_nothing [OF r a b] r a b show ?thesis
    by blast
qed

text \<open>
  C9. A call of \<open>record\<close> with a callback: with the handle and the session that the call
  returned, over the whole life of the session the callback is called exactly once,
  with the new record id, when the answer to \<open>createRecord\<close> is clean and delivers an id
  that is not the fake id; it is never called otherwise, in particular not when the
  fake id is delivered.
\<close>

theorem callback_iff_created_and_not_fake:
  assumes "real_record env u opts domainId attrs = Inr (h, s0, out0)"
    and "filter is_create_settled pre = []"
  shows "filter is_invoke
           (snd (run u opts (Some cb) h (pre @ CreateSettled outcome # post) s0))
         = (case created_id outcome of
              None \<Rightarrow> []
            | Some i \<Rightarrow> if isFakeId i then [] else [Invoke i])"
proof -
  from real_record_returns [OF assms(1)]
  have h: "h = StopHandle" and s0: "s0 = idle\<lparr>awaiting := True\<rparr>" by simp_all
  from run_around_create [OF assms(2), of u opts "Some cb" outcome post]
  obtain b s1 out1 s2 out2 where
    st: "step u opts (Some cb) StopHandle (CreateSettled outcome) (idle\<lparr>awaiting := True, isStopped := b\<rparr>)
             = (s1, out1)"
    and rn: "run u opts (Some cb) StopHandle post s1 = (s2, out2)"
    and all: "run u opts (Some cb) StopHandle (pre @ CreateSettled outcome # post) (idle\<lparr>awaiting := True\<rparr>)
             = (s2, out1 @ out2)"
    by blast
  have aw: "awaiting (idle\<lparr>awaiting := True, isStopped := b\<rparr>)" by simp
  from step_create [OF aw, where outcome = outcome and u = u and opts = opts and nxt = "Some cb"
      and h = StopHandle] st
  have first: "\<not> awaiting s1 \<and> filter is_invoke out1 =
      (case created_id outcome of None \<Rightarrow> [] | Some i \<Rightarrow> if isFakeId i then [] else [Invoke i])"
    by (cases "created_id outcome") (auto split: option.splits if_splits)
  then have "\<not> awaiting s1" by simp
  from settled_run [OF this rn] have "filter is_invoke out2 = []" by simp
  with first all show ?thesis
    by (simp add: h s0)
qed

theorem callback_iff_created_and_not_fake_witness:
  "real_record example_page ''https://sol.example.com/api'' example_options (JStr ''d1'') JNull
     = Inr (StopHandle, idle\<lparr>awaiting := True\<rparr>,
            [Fetch (send_request ''https://sol.example.com/api''
                      (createRecordBody (JStr ''d1'') JNull) example_options)])
   \<and> filter is_create_settled [Elapse ''visible''] = []
   \<and> filter is_invoke
        (snd (run ''https://sol.example.com/api'' example_options (Some (\<lambda>i. None)) StopHandle
                ([Elapse ''visible''] @ CreateSettled (created ''r1'') # [Elapse ''visible''])
                (idle\<lparr>awaiting := True\<rparr>)))
       = [Invoke (JStr ''r1'')]
   \<and> filter is_invoke
        (snd (run ''https://sol.example.com/api'' example_options (Some (\<lambda>i. None)) StopHandle
                ([Elapse ''visible''] @ CreateSettled (created fake_id) # [Elapse ''visible''])
                (idle\<lparr>awaiting := True\<rparr>)))
       = []"
proof -
  have r: "real_record example_page ''https://sol.example.com/api'' example_options (JStr ''d1'') JNull
     = Inr (StopHandle, idle\<lparr>awaiting := True\<rparr>,
            [Fetch (send_request ''https://sol.example.com/api''
                      (createRecordBody (JStr ''d1'') JNull) example_options)])"
    by (rule real_record_serialisable) (simp_all add: stringify_examples)
  have b: "filter is_create_settled [Elapse ''visible''] = []"
    by simp
  have r1: "\<not> isFakeId (JStr ''r1'')"
    by (simp add: isFakeId_def fake_id_def)
  have fk: "isFakeId (JStr fake_id)"
    by (simp add: isFakeId_def)
  have one: "filter is_invoke
        (snd (run ''https://sol.example.com/api'' example_options (Some (\<lambda>i. None)) StopHandle
                ([Elapse ''visible''] @ CreateSettled (created ''r1'') # [Elapse ''visible''])
                (idle\<lparr>awaiting := True\<rparr>)))
       = [Invoke (JStr ''r1'')]"
    using callback_iff_created_and_not_fake [OF r b, where outcome = "created ''r1''"] r1
    by (simp only: created_id_created option.case if_False)
  have two: "filter is_invoke
        (snd (run ''https://sol.example.com/api'' example_options (Some (\<lambda>i. None)) StopHandle
                ([Elapse ''visible''] @ CreateSettled (created fake_id) # [Elapse ''visible''])
                (idle\<lparr>awaiting := True\<rparr>)))
       = []"
    using callback_iff_created_and_not_fake [OF r b, where outcome = "created fake_id"] fk
    by (simp only: created_id_created option.case if_True)
  from r b one two show ?thesis
    by (intro conjI)
qed







section \<open>The gate of create\<close>

lemma classifier_examples:
  "isLocalhost ''''" "isLocalhost ''localhost''" "isLocalhost ''127.0.0.1''" "isLocalhost ''::1''"
  "\<not> isLocalhost ''example.com''" "\<not> isLocalhost ''127.0.0.2''"
  "isFakeId (JStr ''88888888-8888-8888-8888-888888888888'')"
  "\<not> isFakeId (JStr ''88888888-8888-8888-8888-888888888889'')"
  by (simp_all add: isLocalhost_def isFakeId_def fake_id_def)

lemma isBot_examples:
  "isBot ''Googlebot/2.1''" "isBot ''Mozilla Spider''" "isBot ''SomeCrawler/1.0''"
  "\<not> isBot (userAgent example_page)"
  by code_simp+

lemma source_examples:
  "source ''?source=twitter&x=1'' = Some ''twitter''"
  "spec_source ''?source=twitter&x=1'' = Some ''twitter''"
  "source ''?a=1&source='' = None"
  "spec_source ''?a=1&source='' = None"
  "source '''' = None"
  "spec_source '''' = None"
  "source ''?utm_source=newsletter'' = Some ''newsletter''"
  "spec_source ''?utm_source=newsletter'' = None"
  by (simp_all add: source_def spec_source_def js_split_def starts_with_def)

text \<open>
  When \<open>validate\<close> returns: \<open>create\<close> gives the fake instance, with one warning that
  names the reason, if the page is on a localhost that is to be ignored or the user
  agent is a bot; otherwise it gives the real instance, silently.
\<close>

lemma create_gate:
  assumes "validate arg = Inr opts"
  shows "create env server arg =
     (if ignoreLocalhost opts \<and> isLocalhost (hostname env)
      then Inr (FakeInstance, [Warn ''Tracker ignores you because you are on localhost''])
      else if isBot (userAgent env)
      then Inr (FakeInstance, [Warn ''Tracker ignores you because you are a bot''])
      else Inr (RealInstance (endpoint server) opts, []))"
  using assms by (simp add: create_def)

lemma noop_quiet_run:
  assumes "interval s = None" and "inflight s = 0" and "\<not> awaiting s"
  shows "run u opts nxt NoopHandle evs s = (s, [])"
proof (induction evs)
  case Nil
  show ?case by simp
next
  case (Cons e es)
  from assms have "step u opts nxt NoopHandle e s = (s, [])"
    by (cases e) simp_all
  with Cons.IH show ?case by simp
qed

text \<open>
  The fake instance: no operation has an effect, \<open>record\<close> and \<open>updateRecord\<close> return a
  handle whose \<open>stop\<close> changes nothing, and nothing ever happens to the session.
\<close>

lemma fake_instance_inert:
  "tracker_record FakeInstance env domainId attrs = Inr (NoopHandle, idle, [])"
  "tracker_updateRecord FakeInstance recordId = (NoopHandle, idle, [])"
  "tracker_action FakeInstance eventId attrs = Inr []"
  "tracker_updateAction FakeInstance actionId attrs = Inr []"
  "stop NoopHandle s = s"
  "run u opts nxt NoopHandle evs idle = (idle, [])"
  by (simp_all add: noop_quiet_run idle_def)

text \<open>
  C3. The claim that \<open>create\<close> returns the fake instance for every options input when
  the user agent is a bot fails at the options \<open>null\<close>: \<open>validate\<close> runs before the gate
  and throws a \<open>TypeError\<close> there, so \<open>create\<close> returns no instance at all.
\<close>

theorem create_null_options_throws:
  "isBot ''Mozilla/5.0 (compatible; Googlebot/2.1; +http://www.google.com/bot.html)''
   \<and> create (example_page\<lparr>userAgent :=
               ''Mozilla/5.0 (compatible; Googlebot/2.1; +http://www.google.com/bot.html)''\<rparr>)
        ''https://sol.example.com'' JNull
      = Inl TypeError"
  by (simp add: create_def validate_def isBot_def lower_def starts_with_def)

end
